theory Spec2Isabelle
  imports Complex_Main
begin

section \<open>The login rate limiter of \<^verbatim>\<open>src/lib/rate-limit.ts\<close>\<close>

text \<open>
  The limiter keeps one row per identifier in the table \<^verbatim>\<open>loginRateLimits\<close> and decides,
  from the row and the clock, whether a login attempt may proceed. The embedding is shallow:
  every exported function of the module is a HOL function of the same name. What the source
  reads from its environment is an argument: the reading of \<^verbatim>\<open>Date.now()\<close> is the
  argument \<open>nowMs\<close>, the table is the argument \<open>s\<close>, and a function that touches the table
  returns the table it leaves behind.

  JavaScript numbers are modelled as mathematical integers (\<open>int\<close>): all the quantities of the
  module are millisecond timestamps, small counters and differences of them, which a double
  holds exactly.
\<close>

subsection \<open>Configuration\<close>

definition WINDOW_MS :: int where
  "WINDOW_MS = 15 * 60 * 1000"

definition MAX_ATTEMPTS :: int where
  "MAX_ATTEMPTS = 5"

definition BLOCK_DURATION_MS :: int where
  "BLOCK_DURATION_MS = 30 * 60 * 1000"

subsection \<open>Arithmetic helpers\<close>

text \<open>\<^verbatim>\<open>Math.ceil(a / b)\<close> on integer-valued \<open>a\<close> and \<open>b\<close>: the ceiling of the real quotient.\<close>

definition math_ceil_quot :: "int \<Rightarrow> int \<Rightarrow> int" where
  "math_ceil_quot a b = \<lceil>real_of_int a / real_of_int b\<rceil>"

text \<open>\<^verbatim>\<open>Math.max(0, Math.ceil((targetMs - nowMs) / 1000))\<close>\<close>

definition secondsUntil :: "int \<Rightarrow> int \<Rightarrow> int" where
  "secondsUntil targetMs nowMs = max 0 (math_ceil_quot (targetMs - nowMs) 1000)"

subsection \<open>Strings of the result messages\<close>

text \<open>
  A message is a JavaScript string, modelled as the list of its UTF-16 code units. The
  templates of the source are Chinese text around one interpolated number.
\<close>

type_synonym js_string = "nat list"

text \<open>
  The decimal digits of a natural number, most significant first, as code units
  (\<open>0x30\<close> is the digit zero).
\<close>

fun digits :: "nat \<Rightarrow> js_string" where
  "digits n = (if n < 10 then [0x30 + n] else digits (n div 10) @ [0x30 + n mod 10])"

declare digits.simps [simp del]

text \<open>
  What a template literal \<^verbatim>\<open>${n}\<close> inserts for an integer-valued number \<open>n\<close>: its decimal
  numeral, with a minus sign (\<open>0x2D\<close>) when negative. (JavaScript switches to exponent
  notation from \<open>10^21\<close> on; no quantity of this module comes near.)
\<close>

definition number_toString :: "int \<Rightarrow> js_string" where
  "number_toString n = (if n < 0 then 0x2D # digits (nat (- n)) else digits (nat n))"

text \<open>The template of lines 60 and 140 of the source, around the minutes to wait.\<close>

definition msg_retry_after :: "int \<Rightarrow> js_string" where
  "msg_retry_after minutes =
     [0x767B, 0x5F55, 0x5C1D, 0x8BD5, 0x6B21, 0x6570, 0x8FC7, 0x591A, 0xFF0C, 0x8BF7, 0x0020]
     @ number_toString minutes
     @ [0x0020, 0x5206, 0x949F, 0x540E, 0x518D, 0x8BD5]"

text \<open>The fixed message of line 83.\<close>

definition msg_try_later :: js_string where
  "msg_try_later =
     [0x5C1D, 0x8BD5, 0x6B21, 0x6570, 0x8FC7, 0x591A, 0xFF0C, 0x8BF7, 0x7A0D, 0x540E,
      0x518D, 0x8BD5]"

text \<open>The template of line 189, around the minutes of the lock.\<close>

definition msg_locked_for :: "int \<Rightarrow> js_string" where
  "msg_locked_for minutes =
     [0x767B, 0x5F55, 0x5C1D, 0x8BD5, 0x6B21, 0x6570, 0x8FC7, 0x591A, 0xFF0C, 0x8D26,
      0x6237, 0x5DF2, 0x88AB, 0x4E34, 0x65F6, 0x9501, 0x5B9A, 0x0020]
     @ number_toString minutes
     @ [0x0020, 0x5206, 0x949F]"

text \<open>The template of line 208, around the attempts that remain.\<close>

definition msg_attempts_left :: "int \<Rightarrow> js_string" where
  "msg_attempts_left n =
     [0x8FD8, 0x5269, 0x0020] @ number_toString n @ [0x0020, 0x6B21, 0x5C1D, 0x8BD5, 0x673A, 0x4F1A]"

subsection \<open>The result of a decision\<close>

text \<open>
  The interface \<^verbatim>\<open>RateLimitResult\<close>. The optional field \<^verbatim>\<open>message\<close> is an option: absent
  and \<^verbatim>\<open>undefined\<close> are both \<open>None\<close>.
\<close>

record RateLimitResult =
  success :: bool
  remaining :: int
  resetIn :: int
  blocked :: bool
  message :: "js_string option"

subsection \<open>The table of attempt records\<close>

text \<open>
  Modelled from the spec: the table \<^verbatim>\<open>loginRateLimits\<close> and the handle \<^verbatim>\<open>db\<close> are
  imported from \<^verbatim>\<open>@/lib/db\<close>, which is not among the sources. The spec's data model gives a
  row the fields below, with the identifier a unique key, and asks of the store
  find-by-key, insert, update-by-key and delete-by-key. So the table is a finite map from
  the identifier to the rest of the row. Timestamps are the milliseconds that
  \<^verbatim>\<open>getTime()\<close> reads; a nullable column is an option.
\<close>

record attempt_record =
  count :: int
  firstAttemptAt :: int
  lastAttemptAt :: int
  blockedUntil :: "int option"

type_synonym store = "string \<rightharpoonup> attempt_record"

text \<open>\<^verbatim>\<open>findFirst({ where: eq(identifier, ...) })\<close> and \<^verbatim>\<open>select().where(...)[0]\<close>: a read.\<close>

definition db_findFirst :: "string \<Rightarrow> store \<Rightarrow> attempt_record option \<times> store" where
  "db_findFirst identifier s = (s identifier, s)"

text \<open>\<^verbatim>\<open>insert(loginRateLimits).values({identifier, ...})\<close>\<close>

definition db_insert :: "string \<Rightarrow> attempt_record \<Rightarrow> store \<Rightarrow> store" where
  "db_insert identifier row s = s(identifier \<mapsto> row)"

text \<open>
  \<^verbatim>\<open>update(loginRateLimits).set({...}).where(eq(identifier, ...))\<close>: the columns named in
  \<^verbatim>\<open>set\<close> change in the row of that identifier, when there is one.
\<close>

definition db_update :: "string \<Rightarrow> (attempt_record \<Rightarrow> attempt_record) \<Rightarrow> store \<Rightarrow> store" where
  "db_update identifier set_columns s =
     (case s identifier of None \<Rightarrow> s | Some row \<Rightarrow> s(identifier \<mapsto> set_columns row))"

text \<open>\<^verbatim>\<open>delete(loginRateLimits).where(eq(identifier, ...))\<close>\<close>

definition db_delete :: "string \<Rightarrow> store \<Rightarrow> store" where
  "db_delete identifier s = s(identifier := None)"

subsection \<open>\<^verbatim>\<open>checkRateLimit\<close>\<close>

text \<open>
  Lines 65 to 92: what \<^verbatim>\<open>checkRateLimit\<close> answers once it has found a record and no
  block that is still running.
\<close>

definition checkRateLimit_window :: "int \<Rightarrow> attempt_record \<Rightarrow> RateLimitResult" where
  "checkRateLimit_window nowMs record =
     (let windowStartMs = firstAttemptAt record;
          windowEndsMs = windowStartMs + WINDOW_MS
      in if nowMs > windowEndsMs then
           \<lparr>success = True, remaining = MAX_ATTEMPTS,
            resetIn = secondsUntil (nowMs + WINDOW_MS) nowMs, blocked = False, message = None\<rparr>
         else
           let remaining = MAX_ATTEMPTS - count record
           in if remaining \<le> 0 then
                \<lparr>success = False, remaining = 0, resetIn = secondsUntil windowEndsMs nowMs,
                 blocked = False, message = Some msg_try_later\<rparr>
              else
                \<lparr>success = True, remaining = remaining,
                 resetIn = secondsUntil windowEndsMs nowMs, blocked = False, message = None\<rparr>)"

text \<open>Lines 54 to 61 and 134 to 141: the answer under a block that runs until \<open>blockedUntilMs\<close>.\<close>

definition blocked_result :: "int \<Rightarrow> int \<Rightarrow> RateLimitResult" where
  "blocked_result blockedUntilMs nowMs =
     (let resetIn = secondsUntil blockedUntilMs nowMs
      in \<lparr>success = False, remaining = 0, resetIn = resetIn, blocked = True,
          message = Some (msg_retry_after (math_ceil_quot resetIn 60))\<rparr>)"

definition checkRateLimit :: "int \<Rightarrow> string \<Rightarrow> store \<Rightarrow> RateLimitResult \<times> store" where
  "checkRateLimit nowMs identifier s =
     (case db_findFirst identifier s of
        (None, s1) \<Rightarrow>
          (\<lparr>success = True, remaining = MAX_ATTEMPTS,
            resetIn = secondsUntil (nowMs + WINDOW_MS) nowMs, blocked = False, message = None\<rparr>,
           s1)
      | (Some record, s1) \<Rightarrow>
          (case blockedUntil record of
             Some blockedUntilMs \<Rightarrow>
               if blockedUntilMs > nowMs then (blocked_result blockedUntilMs nowMs, s1)
               else (checkRateLimit_window nowMs record, s1)
           | None \<Rightarrow> (checkRateLimit_window nowMs record, s1)))"

subsection \<open>\<^verbatim>\<open>recordFailedAttempt\<close>\<close>

text \<open>
  Lines 145 to 209: what \<^verbatim>\<open>recordFailedAttempt\<close> does once it has found a record and no
  block that is still running. The transaction runs alone on the table (the row is read
  \<^verbatim>\<open>for update\<close>), so it is one step from table to table.
\<close>

definition recordFailedAttempt_window ::
    "int \<Rightarrow> string \<Rightarrow> attempt_record \<Rightarrow> store \<Rightarrow> RateLimitResult \<times> store" where
  "recordFailedAttempt_window nowMs identifier record s =
     (let windowStartMs = firstAttemptAt record;
          windowEndsMs = windowStartMs + WINDOW_MS;
          shouldResetWindow = nowMs > windowEndsMs
      in if shouldResetWindow then
           (\<lparr>success = True, remaining = MAX_ATTEMPTS - 1,
             resetIn = secondsUntil (nowMs + WINDOW_MS) nowMs, blocked = False, message = None\<rparr>,
            db_update identifier
              (\<lambda>row. row\<lparr>count := 1, firstAttemptAt := nowMs, lastAttemptAt := nowMs,
                         blockedUntil := None\<rparr>) s)
         else
           let newCount = count record + 1
           in if newCount \<ge> MAX_ATTEMPTS then
                let blockedUntilMs = nowMs + BLOCK_DURATION_MS;
                    resetIn = secondsUntil blockedUntilMs nowMs
                in (\<lparr>success = False, remaining = 0, resetIn = resetIn, blocked = True,
                     message = Some (msg_locked_for (math_ceil_quot resetIn 60))\<rparr>,
                    db_update identifier
                      (\<lambda>row. row\<lparr>count := newCount, lastAttemptAt := nowMs,
                                 blockedUntil := Some blockedUntilMs\<rparr>) s)
              else
                let remaining = MAX_ATTEMPTS - newCount
                in (\<lparr>success = True, remaining = remaining,
                     resetIn = secondsUntil windowEndsMs nowMs, blocked = False,
                     message = (if remaining \<le> 2 then Some (msg_attempts_left remaining)
                                else None)\<rparr>,
                    db_update identifier
                      (\<lambda>row. row\<lparr>count := newCount, lastAttemptAt := nowMs\<rparr>) s))"

definition recordFailedAttempt :: "int \<Rightarrow> string \<Rightarrow> store \<Rightarrow> RateLimitResult \<times> store" where
  "recordFailedAttempt nowMs identifier s =
     (case db_findFirst identifier s of
        (None, s1) \<Rightarrow>
          (\<lparr>success = True, remaining = MAX_ATTEMPTS - 1,
            resetIn = secondsUntil (nowMs + WINDOW_MS) nowMs, blocked = False, message = None\<rparr>,
           db_insert identifier
             \<lparr>count = 1, firstAttemptAt = nowMs, lastAttemptAt = nowMs, blockedUntil = None\<rparr> s1)
      | (Some record, s1) \<Rightarrow>
          (case blockedUntil record of
             Some blockedUntilMs \<Rightarrow>
               if blockedUntilMs > nowMs then (blocked_result blockedUntilMs nowMs, s1)
               else recordFailedAttempt_window nowMs identifier record s1
           | None \<Rightarrow> recordFailedAttempt_window nowMs identifier record s1))"

subsection \<open>\<^verbatim>\<open>clearRateLimit\<close>\<close>

definition clearRateLimit :: "string \<Rightarrow> store \<Rightarrow> store" where
  "clearRateLimit identifier s = db_delete identifier s"

subsection \<open>\<^verbatim>\<open>getClientIP\<close>\<close>

text \<open>
  The request headers are an object of the platform class \<^verbatim>\<open>Headers\<close>; the function only
  calls \<^verbatim>\<open>get\<close> with lower-case names, so the headers are a map from the lower-case name to
  the value, and \<^verbatim>\<open>get\<close> of a missing header (\<^verbatim>\<open>null\<close>) is \<open>None\<close>. A header value is a
  byte string (every code unit is below 256), which is what \<open>string\<close> holds.
\<close>

type_synonym headers = "string \<rightharpoonup> string"

definition headers_get :: "headers \<Rightarrow> string \<Rightarrow> string option" where
  "headers_get hs name = hs name"

text \<open>
  The test \<^verbatim>\<open>if (v)\<close> on a value that is a string or \<^verbatim>\<open>null\<close>: it passes for a string that
  is not empty, and the branch then has that string.
\<close>

definition truthy :: "string option \<Rightarrow> string option" where
  "truthy v = (case v of None \<Rightarrow> None | Some x \<Rightarrow> if x = [] then None else Some x)"

text \<open>
  \<^verbatim>\<open>s.split(sep)\<close> for a separator of one character: the pieces between the separators,
  in order; a string without separator is its only piece.
\<close>

fun split_acc :: "char \<Rightarrow> string \<Rightarrow> string \<Rightarrow> string list" where
  "split_acc sep piece [] = [rev piece]"
| "split_acc sep piece (c # cs) =
     (if c = sep then rev piece # split_acc sep [] cs else split_acc sep (c # piece) cs)"

definition js_split :: "string \<Rightarrow> char \<Rightarrow> string list" where
  "js_split s sep = split_acc sep [] s"

text \<open>
  The white space and line terminators that \<^verbatim>\<open>trim\<close> strips, among the code units below
  256: tab, line feed, vertical tab, form feed, carriage return, space and no-break space.
\<close>

definition is_js_whitespace :: "char \<Rightarrow> bool" where
  "is_js_whitespace c \<longleftrightarrow>
     c \<in> set [CHR 0x09, CHR 0x0A, CHR 0x0B, CHR 0x0C, CHR 0x0D, CHR 0x20, CHR 0xA0]"

definition js_trim :: "string \<Rightarrow> string" where
  "js_trim s = rev (dropWhile is_js_whitespace (rev (dropWhile is_js_whitespace s)))"

text \<open>
  \<^verbatim>\<open>split(",")\<close> never returns an empty array (lemma \<open>js_split_not_Nil\<close> below), so its
  element \<open>0\<close> is the head of the list.
\<close>

definition getClientIP :: "headers \<Rightarrow> string" where
  "getClientIP hs =
     (case truthy (headers_get hs ''cf-connecting-ip'') of
        Some cfConnectingIP \<Rightarrow> cfConnectingIP
      | None \<Rightarrow>
          (case truthy (headers_get hs ''x-forwarded-for'') of
             Some xForwardedFor \<Rightarrow> js_trim (hd (js_split xForwardedFor (CHR '','')))
           | None \<Rightarrow>
               (case truthy (headers_get hs ''x-real-ip'') of
                  Some xRealIP \<Rightarrow> xRealIP
                | None \<Rightarrow> ''unknown'')))"

subsection \<open>Sequences of calls\<close>




text \<open>
  Failures of one identifier in a row, at the given readings of the clock: the answers in
  order, and the table at the end.
\<close>

fun failures :: "int list \<Rightarrow> string \<Rightarrow> store \<Rightarrow> RateLimitResult list \<times> store" where
  "failures [] identifier s = ([], s)"
| "failures (nowMs # later) identifier s =
     (case recordFailedAttempt nowMs identifier s of
        (answer, s1) \<Rightarrow>
          (case failures later identifier s1 of
             (answers, s2) \<Rightarrow> (answer # answers, s2)))"



text \<open>
  The readings of the clock along a history, in the order in which the calls reach the
  table. They need not ascend: \<^verbatim>\<open>recordFailedAttempt\<close> reads the clock (line 100) before it
  locks the row (line 108), and the clock of the host can be set. The readings have no
  setback when no call reads \<open>BLOCK_DURATION_MS - WINDOW_MS\<close> (fifteen minutes) or more below
  the reading of an earlier call. Ascending readings have none (lemma \<open>sorted_no_setback\<close>).
\<close>

definition no_setback :: "int list \<Rightarrow> bool" where
  "no_setback readings \<longleftrightarrow>
     sorted_wrt (\<lambda>earlier later. earlier - later < BLOCK_DURATION_MS - WINDOW_MS) readings"

section \<open>Arithmetic of the helpers\<close>

lemma math_ceil_quot_div: "math_ceil_quot a b = - ((- a) div b)"
proof -
  have "\<lceil>real_of_int a / real_of_int b\<rceil> = - \<lfloor>real_of_int (- a) / real_of_int b\<rfloor>"
    by (simp add: ceiling_def)
  also have "\<dots> = - ((- a) div b)"
    by (simp only: floor_divide_of_int_eq)
  finally show ?thesis
    by (simp add: math_ceil_quot_def)
qed

lemma secondsUntil_div: "secondsUntil targetMs nowMs = max 0 (- ((nowMs - targetMs) div 1000))"
  by (simp add: secondsUntil_def math_ceil_quot_div)

lemma secondsUntil_window: "secondsUntil (nowMs + WINDOW_MS) nowMs = 900"
  by (simp add: secondsUntil_div WINDOW_MS_def)

lemma secondsUntil_block: "secondsUntil (nowMs + BLOCK_DURATION_MS) nowMs = 1800"
  by (simp add: secondsUntil_div BLOCK_DURATION_MS_def)

text \<open>
  For a target that is not in the past, \<open>secondsUntil\<close> is the number of whole seconds that
  covers the milliseconds left: the time left rounded up.
\<close>

lemma secondsUntil_covers:
  assumes "nowMs \<le> targetMs"
  shows "targetMs - nowMs \<le> 1000 * secondsUntil targetMs nowMs \<and>
    1000 * secondsUntil targetMs nowMs < targetMs - nowMs + 1000"
proof -
  define d where "d = targetMs - nowMs"
  have nonneg: "0 \<le> d"
    using assms by (simp add: d_def)
  have eq: "secondsUntil targetMs nowMs = max 0 (- ((- d) div 1000))"
    by (simp add: secondsUntil_div d_def)
  have "d \<le> 1000 * max 0 (- ((- d) div 1000)) \<and> 1000 * max 0 (- ((- d) div 1000)) < d + 1000"
    using nonneg by (simp add: max_def) linarith
  then show ?thesis
    by (simp only: eq d_def)
qed

section \<open>The branches of the operations\<close>

lemma attempts_left_2:
  "msg_attempts_left 2 =
     [0x8FD8, 0x5269, 0x20, 0x32, 0x20, 0x6B21, 0x5C1D, 0x8BD5, 0x673A, 0x4F1A]"
  by (simp add: msg_attempts_left_def number_toString_def digits.simps)

lemma minutes_of_block: "math_ceil_quot 1800 60 = 30"
  by (simp add: math_ceil_quot_div)

lemma checkRateLimit_absent:
  "s identifier = None \<Longrightarrow>
   checkRateLimit nowMs identifier s =
     (\<lparr>success = True, remaining = MAX_ATTEMPTS, resetIn = 900, blocked = False,
       message = None\<rparr>, s)"
  by (simp add: checkRateLimit_def db_findFirst_def secondsUntil_window)

lemma checkRateLimit_blocked:
  "s identifier = Some r \<Longrightarrow> blockedUntil r = Some b \<Longrightarrow> nowMs < b \<Longrightarrow>
   checkRateLimit nowMs identifier s = (blocked_result b nowMs, s)"
  by (simp add: checkRateLimit_def db_findFirst_def)

lemma checkRateLimit_unblocked:
  "s identifier = Some r \<Longrightarrow> (\<forall>b. blockedUntil r = Some b \<longrightarrow> b \<le> nowMs) \<Longrightarrow>
   checkRateLimit nowMs identifier s = (checkRateLimit_window nowMs r, s)"
  by (cases "blockedUntil r") (simp_all add: checkRateLimit_def db_findFirst_def)

lemma checkRateLimit_store: "snd (checkRateLimit nowMs identifier s) = s"
  by (simp add: checkRateLimit_def db_findFirst_def split: option.split)


lemma recordFailedAttempt_blocked:
  "s identifier = Some r \<Longrightarrow> blockedUntil r = Some b \<Longrightarrow> nowMs < b \<Longrightarrow>
   recordFailedAttempt nowMs identifier s = (blocked_result b nowMs, s)"
  by (simp add: recordFailedAttempt_def db_findFirst_def)

lemma recordFailedAttempt_unblocked:
  "s identifier = Some r \<Longrightarrow> (\<forall>b. blockedUntil r = Some b \<longrightarrow> b \<le> nowMs) \<Longrightarrow>
   recordFailedAttempt nowMs identifier s = recordFailedAttempt_window nowMs identifier r s"
  by (cases "blockedUntil r") (simp_all add: recordFailedAttempt_def db_findFirst_def)


lemma window_lock:
  "s identifier = Some r \<Longrightarrow> nowMs \<le> firstAttemptAt r + WINDOW_MS \<Longrightarrow>
   MAX_ATTEMPTS \<le> count r + 1 \<Longrightarrow>
   recordFailedAttempt_window nowMs identifier r s =
     (\<lparr>success = False, remaining = 0, resetIn = 1800, blocked = True,
       message = Some (msg_locked_for 30)\<rparr>,
      s(identifier \<mapsto>
        r\<lparr>count := count r + 1, lastAttemptAt := nowMs,
          blockedUntil := Some (nowMs + BLOCK_DURATION_MS)\<rparr>))"
  by (simp add: recordFailedAttempt_window_def db_update_def secondsUntil_block minutes_of_block)


section \<open>What the operations keep true of the table\<close>











lemma sorted_no_setback: "sorted readings \<Longrightarrow> no_setback readings"
  unfolding no_setback_def
  by (rule sorted_wrt_mono_rel [of readings "(\<le>)"])
    (simp_all add: BLOCK_DURATION_MS_def WINDOW_MS_def)


section \<open>Five failures in one window\<close>

lemma attempts_left_1:
  "msg_attempts_left 1 =
     [0x8FD8, 0x5269, 0x20, 0x31, 0x20, 0x6B21, 0x5C1D, 0x8BD5, 0x673A, 0x4F1A]"
  by (simp add: msg_attempts_left_def number_toString_def digits.simps)

lemma five_failures:
  assumes "s identifier = None"
    and "t2 \<le> t1 + WINDOW_MS" and "t3 \<le> t1 + WINDOW_MS"
    and "t4 \<le> t1 + WINDOW_MS" and "t5 \<le> t1 + WINDOW_MS"
  shows "failures [t1, t2, t3, t4, t5] identifier s =
    ([\<lparr>success = True, remaining = 4, resetIn = 900, blocked = False, message = None\<rparr>,
      \<lparr>success = True, remaining = 3, resetIn = secondsUntil (t1 + WINDOW_MS) t2,
       blocked = False, message = None\<rparr>,
      \<lparr>success = True, remaining = 2, resetIn = secondsUntil (t1 + WINDOW_MS) t3,
       blocked = False, message = Some (msg_attempts_left 2)\<rparr>,
      \<lparr>success = True, remaining = 1, resetIn = secondsUntil (t1 + WINDOW_MS) t4,
       blocked = False, message = Some (msg_attempts_left 1)\<rparr>,
      \<lparr>success = False, remaining = 0, resetIn = 1800, blocked = True,
       message = Some (msg_locked_for 30)\<rparr>],
     s(identifier \<mapsto>
       \<lparr>count = 5, firstAttemptAt = t1, lastAttemptAt = t5,
        blockedUntil = Some (t5 + BLOCK_DURATION_MS)\<rparr>))"
  using assms
  by (simp add: recordFailedAttempt_def recordFailedAttempt_window_def db_findFirst_def
      db_insert_def db_update_def Let_def MAX_ATTEMPTS_def secondsUntil_window
      secondsUntil_block minutes_of_block)

section \<open>Splitting and trimming a header value, and histories for the examples\<close>

lemma split_acc_not_Nil: "split_acc sep piece s \<noteq> []"
  by (induction s arbitrary: piece) simp_all

lemma js_split_not_Nil: "js_split s sep \<noteq> []"
  by (simp add: js_split_def split_acc_not_Nil)

text \<open>
  Element \<open>0\<close> of \<^verbatim>\<open>s.split(sep)\<close> is what stands to the left of the first separator.
\<close>

lemma hd_split_acc: "hd (split_acc sep piece s) = rev piece @ takeWhile (\<lambda>c. c \<noteq> sep) s"
  by (induction s arbitrary: piece) simp_all

lemma hd_js_split: "hd (js_split s sep) = takeWhile (\<lambda>c. c \<noteq> sep) s"
  by (simp add: js_split_def hd_split_acc)




text \<open>
  What \<^verbatim>\<open>trim\<close> does to a string: the string is the result between two runs of white
  space, and the result neither starts nor ends with white space.
\<close>

lemma is_js_whitespace_iff:
  "is_js_whitespace c \<longleftrightarrow>
     c \<in> {CHR 0x09, CHR 0x0A, CHR 0x0B, CHR 0x0C, CHR 0x0D, CHR 0x20, CHR 0xA0}"
  by (simp add: is_js_whitespace_def)

lemma js_trim_rest:
  "dropWhile is_js_whitespace e =
     js_trim e @ rev (takeWhile is_js_whitespace (rev (dropWhile is_js_whitespace e)))"
proof -
  let ?r = "rev (dropWhile is_js_whitespace e)"
  have "js_trim e @ rev (takeWhile is_js_whitespace ?r) =
      rev (takeWhile is_js_whitespace ?r @ dropWhile is_js_whitespace ?r)"
    by (simp only: js_trim_def rev_append)
  also have "\<dots> = rev ?r"
    by (simp only: takeWhile_dropWhile_id)
  also have "\<dots> = dropWhile is_js_whitespace e"
    by (simp only: rev_rev_ident)
  finally show ?thesis
    by (rule sym)
qed

lemma js_trim_decomposes:
  "\<exists>before after.
     e = before @ js_trim e @ after \<and>
     (\<forall>c \<in> set before. is_js_whitespace c) \<and> (\<forall>c \<in> set after. is_js_whitespace c)"
proof (intro exI conjI)
  let ?rest = "dropWhile is_js_whitespace e"
  have "e = takeWhile is_js_whitespace e @ ?rest"
    by (simp only: takeWhile_dropWhile_id)
  also have "?rest = js_trim e @ rev (takeWhile is_js_whitespace (rev ?rest))"
    by (rule js_trim_rest)
  finally show "e = takeWhile is_js_whitespace e @ js_trim e @
      rev (takeWhile is_js_whitespace (rev ?rest))" .
  show "\<forall>c \<in> set (takeWhile is_js_whitespace e). is_js_whitespace c"
    by (auto dest: set_takeWhileD)
  show "\<forall>c \<in> set (rev (takeWhile is_js_whitespace (rev ?rest))). is_js_whitespace c"
    by (auto dest: set_takeWhileD)
qed

lemma js_trim_ends:
  assumes "js_trim e \<noteq> []"
  shows "\<not> is_js_whitespace (hd (js_trim e)) \<and> \<not> is_js_whitespace (last (js_trim e))"
proof
  let ?rest = "dropWhile is_js_whitespace e"
  let ?kept = "dropWhile is_js_whitespace (rev ?rest)"
  have trimmed: "js_trim e = rev ?kept"
    by (simp only: js_trim_def)
  have kept: "?kept \<noteq> []"
    using assms by (simp only: trimmed rev_is_Nil_conv not_False_eq_True)
  have "\<not> is_js_whitespace (hd ?kept)"
    using kept by (rule hd_dropWhile)
  moreover have "last (rev ?kept) = hd ?kept"
    by (rule last_rev)
  ultimately show "\<not> is_js_whitespace (last (js_trim e))"
    by (simp only: trimmed not_False_eq_True)
  have rest: "?rest \<noteq> []"
  proof
    assume "?rest = []"
    then have "?kept = []"
      by (simp only: rev.simps dropWhile.simps)
    with kept show False ..
  qed
  then have first: "\<not> is_js_whitespace (hd ?rest)"
    by (rule hd_dropWhile)
  have "hd ?rest = hd (js_trim e @ rev (takeWhile is_js_whitespace (rev ?rest)))"
    by (rule arg_cong [OF js_trim_rest])
  also have "\<dots> = hd (js_trim e)"
    using assms by (rule hd_append2)
  finally have "hd ?rest = hd (js_trim e)" .
  with first show "\<not> is_js_whitespace (hd (js_trim e))"
    by (simp only: not_False_eq_True)
qed

section \<open>The claims of the specification\<close>

subsection \<open>C1: the failure that reaches the threshold blocks\<close>

text \<open>
  Claim C1. Take an identifier with a record whose window is still running (the clock is not
  past \<open>firstAttemptAt + WINDOW_MS\<close>) and that is under no running block. A call of
  \<^verbatim>\<open>recordFailedAttempt\<close> that brings the count to \<open>MAX_ATTEMPTS\<close> (or beyond) answers
  \<open>success = False\<close> and \<open>blocked = True\<close> and stores the new count, the time of the call as
  \<open>lastAttemptAt\<close>, and \<open>blockedUntil\<close> = the time of the call plus \<open>BLOCK_DURATION_MS\<close>. In
  particular, \<open>MAX_ATTEMPTS\<close> = 5 failures in a row of an identifier without record, all within
  the window that the first one opens, answer \<open>blocked = True\<close> on the last call and on no
  earlier one, and leave \<open>blockedUntil\<close> at the time of the last call plus
  \<open>BLOCK_DURATION_MS\<close>.
\<close>

theorem threshold_blocks:
  "(s identifier = Some r \<and>
    nowMs \<le> firstAttemptAt r + WINDOW_MS \<and>
    (case blockedUntil r of None \<Rightarrow> True | Some b \<Rightarrow> b \<le> nowMs) \<and>
    MAX_ATTEMPTS \<le> count r + 1 \<longrightarrow>
      recordFailedAttempt nowMs identifier s =
        (\<lparr>success = False, remaining = 0, resetIn = BLOCK_DURATION_MS div 1000,
          blocked = True, message = Some (msg_locked_for 30)\<rparr>,
         s(identifier \<mapsto>
           r\<lparr>count := count r + 1, lastAttemptAt := nowMs,
             blockedUntil := Some (nowMs + BLOCK_DURATION_MS)\<rparr>))) \<and>
   (s' identifier' = None \<and>
    t2 \<le> t1 + WINDOW_MS \<and> t3 \<le> t1 + WINDOW_MS \<and>
    t4 \<le> t1 + WINDOW_MS \<and> t5 \<le> t1 + WINDOW_MS \<longrightarrow>
      map blocked (fst (failures [t1, t2, t3, t4, t5] identifier' s')) =
        [False, False, False, False, True] \<and>
      map success (fst (failures [t1, t2, t3, t4, t5] identifier' s')) =
        [True, True, True, True, False] \<and>
      snd (failures [t1, t2, t3, t4, t5] identifier' s') identifier' =
        Some \<lparr>count = MAX_ATTEMPTS, firstAttemptAt = t1, lastAttemptAt = t5,
              blockedUntil = Some (t5 + BLOCK_DURATION_MS)\<rparr>)"
proof (intro conjI impI)
  assume a: "s identifier = Some r \<and>
    nowMs \<le> firstAttemptAt r + WINDOW_MS \<and>
    (case blockedUntil r of None \<Rightarrow> True | Some b \<Rightarrow> b \<le> nowMs) \<and>
    MAX_ATTEMPTS \<le> count r + 1"
  then have found: "s identifier = Some r"
    and unblocked: "\<forall>b. blockedUntil r = Some b \<longrightarrow> b \<le> nowMs"
    by (simp_all split: option.splits)
  have "recordFailedAttempt nowMs identifier s =
      recordFailedAttempt_window nowMs identifier r s"
    using found unblocked by (rule recordFailedAttempt_unblocked)
  then show "recordFailedAttempt nowMs identifier s =
      (\<lparr>success = False, remaining = 0, resetIn = BLOCK_DURATION_MS div 1000,
        blocked = True, message = Some (msg_locked_for 30)\<rparr>,
       s(identifier \<mapsto>
         r\<lparr>count := count r + 1, lastAttemptAt := nowMs,
           blockedUntil := Some (nowMs + BLOCK_DURATION_MS)\<rparr>))"
    using a by (simp add: window_lock) (simp add: BLOCK_DURATION_MS_def)
next
  assume b: "s' identifier' = None \<and>
    t2 \<le> t1 + WINDOW_MS \<and> t3 \<le> t1 + WINDOW_MS \<and>
    t4 \<le> t1 + WINDOW_MS \<and> t5 \<le> t1 + WINDOW_MS"
  then have five: "failures [t1, t2, t3, t4, t5] identifier' s' =
    ([\<lparr>success = True, remaining = 4, resetIn = 900, blocked = False, message = None\<rparr>,
      \<lparr>success = True, remaining = 3, resetIn = secondsUntil (t1 + WINDOW_MS) t2,
       blocked = False, message = None\<rparr>,
      \<lparr>success = True, remaining = 2, resetIn = secondsUntil (t1 + WINDOW_MS) t3,
       blocked = False, message = Some (msg_attempts_left 2)\<rparr>,
      \<lparr>success = True, remaining = 1, resetIn = secondsUntil (t1 + WINDOW_MS) t4,
       blocked = False, message = Some (msg_attempts_left 1)\<rparr>,
      \<lparr>success = False, remaining = 0, resetIn = 1800, blocked = True,
       message = Some (msg_locked_for 30)\<rparr>],
     s'(identifier' \<mapsto>
       \<lparr>count = 5, firstAttemptAt = t1, lastAttemptAt = t5,
        blockedUntil = Some (t5 + BLOCK_DURATION_MS)\<rparr>))"
    by (simp only: five_failures)
  show "map blocked (fst (failures [t1, t2, t3, t4, t5] identifier' s')) =
      [False, False, False, False, True]"
    by (simp only: five fst_conv list.map RateLimitResult.simps)
  show "map success (fst (failures [t1, t2, t3, t4, t5] identifier' s')) =
      [True, True, True, True, False]"
    by (simp only: five fst_conv list.map RateLimitResult.simps)
  show "snd (failures [t1, t2, t3, t4, t5] identifier' s') identifier' =
      Some \<lparr>count = MAX_ATTEMPTS, firstAttemptAt = t1, lastAttemptAt = t5,
            blockedUntil = Some (t5 + BLOCK_DURATION_MS)\<rparr>"
    by (simp only: five snd_conv) (simp add: MAX_ATTEMPTS_def)
qed

text \<open>
  An instance: the fifth failure four seconds into the window, and the five failures from
  an empty table.
\<close>

theorem threshold_blocks_witness:
  "recordFailedAttempt 4000 ''1.2.3.4''
     [''1.2.3.4'' \<mapsto>
        \<lparr>count = 4, firstAttemptAt = 0, lastAttemptAt = 3000, blockedUntil = None\<rparr>] =
     (\<lparr>success = False, remaining = 0, resetIn = 1800, blocked = True,
       message = Some (msg_locked_for 30)\<rparr>,
      [''1.2.3.4'' \<mapsto>
        \<lparr>count = 5, firstAttemptAt = 0, lastAttemptAt = 4000,
         blockedUntil = Some 1804000\<rparr>]) \<and>
   map blocked (fst (failures [0, 1000, 2000, 3000, 4000] ''1.2.3.4'' Map.empty)) =
     [False, False, False, False, True] \<and>
   snd (failures [0, 1000, 2000, 3000, 4000] ''1.2.3.4'' Map.empty) ''1.2.3.4'' =
     Some \<lparr>count = 5, firstAttemptAt = 0, lastAttemptAt = 4000,
           blockedUntil = Some 1804000\<rparr>"
proof -
  let ?r = "\<lparr>count = 4, firstAttemptAt = 0, lastAttemptAt = 3000, blockedUntil = None\<rparr>"
  let ?s = "[''1.2.3.4'' \<mapsto> ?r]"
  have one: "?s ''1.2.3.4'' = Some ?r \<and>
      4000 \<le> firstAttemptAt ?r + WINDOW_MS \<and>
      (case blockedUntil ?r of None \<Rightarrow> True | Some b \<Rightarrow> b \<le> 4000) \<and>
      MAX_ATTEMPTS \<le> count ?r + 1"
    by (simp add: WINDOW_MS_def MAX_ATTEMPTS_def)
  have five: "Map.empty ''1.2.3.4'' = (None :: attempt_record option) \<and>
      1000 \<le> 0 + WINDOW_MS \<and> 2000 \<le> 0 + WINDOW_MS \<and>
      3000 \<le> 0 + WINDOW_MS \<and> 4000 \<le> 0 + WINDOW_MS"
    by (simp add: WINDOW_MS_def)
  note inst = threshold_blocks [of ?s "''1.2.3.4''" ?r 4000 Map.empty "''1.2.3.4''"
      1000 0 2000 3000 4000]
  note inst [THEN conjunct1, THEN mp, OF one]
  moreover note inst [THEN conjunct2, THEN mp, OF five]
  ultimately show ?thesis
    by (simp add: BLOCK_DURATION_MS_def MAX_ATTEMPTS_def)
qed

subsection \<open>C2: under a running block nothing is counted\<close>

text \<open>
  Claim C2. For an identifier whose record has a \<open>blockedUntil\<close> that is set and strictly in
  the future, \<^verbatim>\<open>checkRateLimit\<close> and \<^verbatim>\<open>recordFailedAttempt\<close> both answer
  \<open>success = False\<close>, \<open>blocked = True\<close>, \<open>remaining = 0\<close> and \<open>resetIn\<close> = the seconds until
  \<open>blockedUntil\<close>, rounded up; and \<^verbatim>\<open>recordFailedAttempt\<close> leaves the whole table, so the
  record with its four fields, as it was.
\<close>

theorem blocked_is_denied_unchanged:
  assumes "s identifier = Some r" and "blockedUntil r = Some b" and "nowMs < b"
  shows "checkRateLimit nowMs identifier s =
      (\<lparr>success = False, remaining = 0, resetIn = secondsUntil b nowMs, blocked = True,
        message = Some (msg_retry_after (math_ceil_quot (secondsUntil b nowMs) 60))\<rparr>, s) \<and>
    recordFailedAttempt nowMs identifier s =
      (\<lparr>success = False, remaining = 0, resetIn = secondsUntil b nowMs, blocked = True,
        message = Some (msg_retry_after (math_ceil_quot (secondsUntil b nowMs) 60))\<rparr>, s) \<and>
    snd (recordFailedAttempt nowMs identifier s) identifier = Some r \<and>
    b - nowMs \<le> 1000 * secondsUntil b nowMs \<and>
    1000 * secondsUntil b nowMs < b - nowMs + 1000"
proof -
  have "nowMs \<le> b"
    using assms(3) by simp
  then have "b - nowMs \<le> 1000 * secondsUntil b nowMs \<and>
      1000 * secondsUntil b nowMs < b - nowMs + 1000"
    by (rule secondsUntil_covers)
  then show ?thesis
    using assms
    by (simp add: checkRateLimit_blocked recordFailedAttempt_blocked blocked_result_def Let_def)
qed

text \<open>
  An instance: 60.5 seconds before the end of a block both calls announce 61 seconds, that
  is two minutes in the message.
\<close>

theorem blocked_is_denied_unchanged_witness:
  "checkRateLimit 1000 ''1.2.3.4''
     [''1.2.3.4'' \<mapsto>
        \<lparr>count = 5, firstAttemptAt = 0, lastAttemptAt = 900, blockedUntil = Some 61500\<rparr>] =
     (\<lparr>success = False, remaining = 0, resetIn = 61, blocked = True,
       message = Some (msg_retry_after 2)\<rparr>,
      [''1.2.3.4'' \<mapsto>
        \<lparr>count = 5, firstAttemptAt = 0, lastAttemptAt = 900, blockedUntil = Some 61500\<rparr>]) \<and>
   recordFailedAttempt 1000 ''1.2.3.4''
     [''1.2.3.4'' \<mapsto>
        \<lparr>count = 5, firstAttemptAt = 0, lastAttemptAt = 900, blockedUntil = Some 61500\<rparr>] =
     (\<lparr>success = False, remaining = 0, resetIn = 61, blocked = True,
       message = Some (msg_retry_after 2)\<rparr>,
      [''1.2.3.4'' \<mapsto>
        \<lparr>count = 5, firstAttemptAt = 0, lastAttemptAt = 900, blockedUntil = Some 61500\<rparr>])"
proof -
  let ?r = "\<lparr>count = 5, firstAttemptAt = 0, lastAttemptAt = 900, blockedUntil = Some 61500\<rparr>"
  let ?s = "[''1.2.3.4'' \<mapsto> ?r]"
  have found: "?s ''1.2.3.4'' = Some ?r" and block: "blockedUntil ?r = Some 61500"
    and running: "(1000::int) < 61500"
    by simp_all
  have seconds: "secondsUntil 61500 1000 = 61" and minutes: "math_ceil_quot 61 60 = 2"
    by (simp_all add: secondsUntil_div math_ceil_quot_div)
  from blocked_is_denied_unchanged [of ?s "''1.2.3.4''" ?r 61500 1000, OF found block running]
  show ?thesis
    by (simp add: seconds minutes)
qed

subsection \<open>C3: the first failure after a block starts afresh\<close>




subsection \<open>C4: the count stays between one and the maximum\<close>




subsection \<open>C5: an identifier without record may proceed\<close>

text \<open>
  Claim C5. \<^verbatim>\<open>checkRateLimit\<close> never changes the table; and for an identifier without
  record it answers \<open>success = True\<close>, \<open>remaining = MAX_ATTEMPTS\<close>, \<open>blocked = False\<close> and
  \<open>resetIn\<close> = \<open>WINDOW_MS\<close> in whole seconds (900), without message.
\<close>

theorem check_without_record:
  "snd (checkRateLimit nowMs identifier s) = s \<and>
   (s identifier = None \<longrightarrow>
      fst (checkRateLimit nowMs identifier s) =
        \<lparr>success = True, remaining = MAX_ATTEMPTS, resetIn = WINDOW_MS div 1000,
         blocked = False, message = None\<rparr>)"
  by (simp add: checkRateLimit_store checkRateLimit_absent WINDOW_MS_def)

text \<open>
  An instance: an address without record beside the record of another address.
\<close>

theorem check_without_record_witness:
  "[''10.0.0.7'' \<mapsto> \<lparr>count = 3, firstAttemptAt = 0, lastAttemptAt = 500, blockedUntil = None\<rparr>]
     ''1.2.3.4'' = None \<and>
   checkRateLimit 1000 ''1.2.3.4''
     [''10.0.0.7'' \<mapsto> \<lparr>count = 3, firstAttemptAt = 0, lastAttemptAt = 500, blockedUntil = None\<rparr>] =
     (\<lparr>success = True, remaining = 5, resetIn = 900, blocked = False, message = None\<rparr>,
      [''10.0.0.7'' \<mapsto> \<lparr>count = 3, firstAttemptAt = 0, lastAttemptAt = 500, blockedUntil = None\<rparr>])"
proof -
  let ?s = "[''10.0.0.7'' \<mapsto>
    \<lparr>count = 3, firstAttemptAt = 0, lastAttemptAt = 500, blockedUntil = None\<rparr>]"
  have absent: "?s ''1.2.3.4'' = None"
    by simp
  from check_without_record [of 1000 "''1.2.3.4''" ?s] absent
  have "snd (checkRateLimit 1000 ''1.2.3.4'' ?s) = ?s"
    and "fst (checkRateLimit 1000 ''1.2.3.4'' ?s) =
      \<lparr>success = True, remaining = 5, resetIn = 900, blocked = False, message = None\<rparr>"
    by (simp_all add: MAX_ATTEMPTS_def WINDOW_MS_def)
  then show ?thesis
    using absent by (simp add: prod_eq_iff)
qed

subsection \<open>C6: what is left of the window\<close>

text \<open>
  Claim C6. For a record under no running block and with a window that has not expired,
  \<^verbatim>\<open>checkRateLimit\<close> computes \<open>MAX_ATTEMPTS - count\<close>. When that is zero or less it answers
  \<open>success = False\<close> with \<open>blocked = False\<close>; otherwise it answers \<open>success = True\<close> with that
  number as \<open>remaining\<close>. In both cases \<open>resetIn\<close> is the seconds until the end of the window,
  rounded up.
\<close>

theorem check_counts_remaining:
  assumes "s identifier = Some r"
    and "case blockedUntil r of None \<Rightarrow> True | Some b \<Rightarrow> b \<le> nowMs"
    and "nowMs \<le> firstAttemptAt r + WINDOW_MS"
  shows "fst (checkRateLimit nowMs identifier s) =
      (if MAX_ATTEMPTS - count r \<le> 0
       then \<lparr>success = False, remaining = 0,
             resetIn = secondsUntil (firstAttemptAt r + WINDOW_MS) nowMs, blocked = False,
             message = Some msg_try_later\<rparr>
       else \<lparr>success = True, remaining = MAX_ATTEMPTS - count r,
             resetIn = secondsUntil (firstAttemptAt r + WINDOW_MS) nowMs, blocked = False,
             message = None\<rparr>) \<and>
    firstAttemptAt r + WINDOW_MS - nowMs
      \<le> 1000 * secondsUntil (firstAttemptAt r + WINDOW_MS) nowMs \<and>
    1000 * secondsUntil (firstAttemptAt r + WINDOW_MS) nowMs
      < firstAttemptAt r + WINDOW_MS - nowMs + 1000"
proof -
  have unblocked: "\<forall>b. blockedUntil r = Some b \<longrightarrow> b \<le> nowMs"
    using assms(2) by (simp split: option.splits)
  have "checkRateLimit nowMs identifier s = (checkRateLimit_window nowMs r, s)"
    using assms(1) unblocked by (rule checkRateLimit_unblocked)
  moreover have "\<not> firstAttemptAt r + WINDOW_MS < nowMs"
    using assms(3) by simp
  ultimately show ?thesis
    using secondsUntil_covers [OF assms(3)]
    by (simp add: checkRateLimit_window_def Let_def)
qed

text \<open>
  An instance of each case, 60.5 seconds into the window: a record with three failures,
  and a record with five failures whose block has run out.
\<close>

theorem check_counts_remaining_witness:
  "fst (checkRateLimit 60500 ''1.2.3.4''
     [''1.2.3.4'' \<mapsto>
        \<lparr>count = 3, firstAttemptAt = 0, lastAttemptAt = 900, blockedUntil = None\<rparr>]) =
     \<lparr>success = True, remaining = 2, resetIn = 840, blocked = False, message = None\<rparr> \<and>
   fst (checkRateLimit 60500 ''5.6.7.8''
     [''5.6.7.8'' \<mapsto>
        \<lparr>count = 5, firstAttemptAt = 0, lastAttemptAt = 900, blockedUntil = Some 60000\<rparr>]) =
     \<lparr>success = False, remaining = 0, resetIn = 840, blocked = False,
      message = Some msg_try_later\<rparr>"
proof -
  let ?r = "\<lparr>count = 3, firstAttemptAt = 0, lastAttemptAt = 900, blockedUntil = None\<rparr>"
  let ?q = "\<lparr>count = 5, firstAttemptAt = 0, lastAttemptAt = 900, blockedUntil = Some 60000\<rparr>"
  have seconds: "secondsUntil 900000 60500 = 840"
    by (simp add: secondsUntil_div)
  have "[''1.2.3.4'' \<mapsto> ?r] ''1.2.3.4'' = Some ?r"
    and "case blockedUntil ?r of None \<Rightarrow> True | Some b \<Rightarrow> b \<le> 60500"
    and "60500 \<le> firstAttemptAt ?r + WINDOW_MS"
    by (simp_all add: WINDOW_MS_def)
  from check_counts_remaining [of "[''1.2.3.4'' \<mapsto> ?r]" "''1.2.3.4''" ?r 60500, OF this]
  have first: "fst (checkRateLimit 60500 ''1.2.3.4'' [''1.2.3.4'' \<mapsto> ?r]) =
      \<lparr>success = True, remaining = 2, resetIn = 840, blocked = False, message = None\<rparr>"
    by (simp add: MAX_ATTEMPTS_def WINDOW_MS_def seconds)
  have "[''5.6.7.8'' \<mapsto> ?q] ''5.6.7.8'' = Some ?q"
    and "case blockedUntil ?q of None \<Rightarrow> True | Some b \<Rightarrow> b \<le> 60500"
    and "60500 \<le> firstAttemptAt ?q + WINDOW_MS"
    by (simp_all add: WINDOW_MS_def)
  from check_counts_remaining [of "[''5.6.7.8'' \<mapsto> ?q]" "''5.6.7.8''" ?q 60500, OF this]
  have second: "fst (checkRateLimit 60500 ''5.6.7.8'' [''5.6.7.8'' \<mapsto> ?q]) =
      \<lparr>success = False, remaining = 0, resetIn = 840, blocked = False,
       message = Some msg_try_later\<rparr>"
    by (simp add: MAX_ATTEMPTS_def WINDOW_MS_def seconds)
  from first second show ?thesis
    by simp
qed

subsection \<open>C7: the five failures, one by one\<close>

text \<open>
  Claim C7. From an identifier without record, with \<open>MAX_ATTEMPTS = 5\<close>: the failures 1 to 4
  within the window answer \<open>success = True\<close> with \<open>remaining\<close> 4, 3, 2, 1; the first and the
  second carry no message, the third and the fourth carry the warning with the digit of
  what remains (code units \<open>0x32\<close> and \<open>0x31\<close>, the digits 2 and 1); the fifth answers
  \<open>success = False\<close>, \<open>blocked = True\<close> and \<open>resetIn = 1800\<close>.
\<close>

theorem five_failures_scenario:
  assumes "s identifier = None"
    and "t2 \<le> t1 + WINDOW_MS" and "t3 \<le> t1 + WINDOW_MS"
    and "t4 \<le> t1 + WINDOW_MS" and "t5 \<le> t1 + WINDOW_MS"
  shows "fst (failures [t1, t2, t3, t4, t5] identifier s) =
    [\<lparr>success = True, remaining = 4, resetIn = 900, blocked = False, message = None\<rparr>,
     \<lparr>success = True, remaining = 3, resetIn = secondsUntil (t1 + WINDOW_MS) t2,
      blocked = False, message = None\<rparr>,
     \<lparr>success = True, remaining = 2, resetIn = secondsUntil (t1 + WINDOW_MS) t3,
      blocked = False,
      message = Some ([0x8FD8, 0x5269, 0x20] @ [0x32] @ [0x20, 0x6B21, 0x5C1D, 0x8BD5, 0x673A, 0x4F1A])\<rparr>,
     \<lparr>success = True, remaining = 1, resetIn = secondsUntil (t1 + WINDOW_MS) t4,
      blocked = False,
      message = Some ([0x8FD8, 0x5269, 0x20] @ [0x31] @ [0x20, 0x6B21, 0x5C1D, 0x8BD5, 0x673A, 0x4F1A])\<rparr>,
     \<lparr>success = False, remaining = 0, resetIn = 1800, blocked = True,
      message = Some (msg_locked_for 30)\<rparr>]"
  using assms by (simp only: five_failures fst_conv attempts_left_1 attempts_left_2) simp

text \<open>
  An instance: five failures one second apart.
\<close>

theorem five_failures_scenario_witness:
  "fst (failures [0, 1000, 2000, 3000, 4000] ''1.2.3.4'' Map.empty) =
    [\<lparr>success = True, remaining = 4, resetIn = 900, blocked = False, message = None\<rparr>,
     \<lparr>success = True, remaining = 3, resetIn = 899, blocked = False, message = None\<rparr>,
     \<lparr>success = True, remaining = 2, resetIn = 898, blocked = False,
      message = Some [0x8FD8, 0x5269, 0x20, 0x32, 0x20, 0x6B21, 0x5C1D, 0x8BD5, 0x673A, 0x4F1A]\<rparr>,
     \<lparr>success = True, remaining = 1, resetIn = 897, blocked = False,
      message = Some [0x8FD8, 0x5269, 0x20, 0x31, 0x20, 0x6B21, 0x5C1D, 0x8BD5, 0x673A, 0x4F1A]\<rparr>,
     \<lparr>success = False, remaining = 0, resetIn = 1800, blocked = True,
      message = Some (msg_locked_for 30)\<rparr>]"
proof -
  have fresh: "Map.empty ''1.2.3.4'' = (None :: attempt_record option)"
    and inside: "1000 \<le> 0 + WINDOW_MS" "2000 \<le> 0 + WINDOW_MS"
      "3000 \<le> 0 + WINDOW_MS" "4000 \<le> 0 + WINDOW_MS"
    by (simp_all add: WINDOW_MS_def)
  have seconds: "secondsUntil (0 + WINDOW_MS) 1000 = 899"
    "secondsUntil (0 + WINDOW_MS) 2000 = 898" "secondsUntil (0 + WINDOW_MS) 3000 = 897"
    by (simp_all add: secondsUntil_div WINDOW_MS_def)
  from five_failures_scenario [of Map.empty "''1.2.3.4''" 1000 0 2000 3000 4000,
      OF fresh inside]
  show ?thesis
    by (simp only: seconds) simp
qed

subsection \<open>C8: clearing deletes\<close>

text \<open>
  Claim C8. \<^verbatim>\<open>clearRateLimit\<close> removes the record of the identifier and touches no other
  record; clearing twice is clearing once; clearing an identifier without record changes
  nothing; and after clearing, \<^verbatim>\<open>checkRateLimit\<close> answers for the identifier what it
  answers in any table \<open>s'\<close> that has no record of it: the answer of claim C5.
\<close>

theorem clear_deletes:
  "clearRateLimit identifier s identifier = None \<and>
   (\<forall>other. other \<noteq> identifier \<longrightarrow> clearRateLimit identifier s other = s other) \<and>
   clearRateLimit identifier (clearRateLimit identifier s) = clearRateLimit identifier s \<and>
   (s identifier = None \<longrightarrow> clearRateLimit identifier s = s) \<and>
   (s' identifier = None \<longrightarrow>
      fst (checkRateLimit nowMs identifier (clearRateLimit identifier s)) =
      fst (checkRateLimit nowMs identifier s')) \<and>
   fst (checkRateLimit nowMs identifier (clearRateLimit identifier s)) =
     \<lparr>success = True, remaining = MAX_ATTEMPTS, resetIn = 900, blocked = False,
      message = None\<rparr>"
proof -
  have gone: "clearRateLimit identifier s identifier = None"
    by (simp add: clearRateLimit_def db_delete_def)
  have "s identifier = None \<longrightarrow> clearRateLimit identifier s = s"
    by (auto simp: clearRateLimit_def db_delete_def)
  then show ?thesis
    using gone
    by (simp add: checkRateLimit_absent) (simp add: clearRateLimit_def db_delete_def)
qed

text \<open>
  An instance: clearing a blocked address, and clearing in the empty table.
\<close>

theorem clear_deletes_witness:
  "clearRateLimit ''1.2.3.4''
     [''1.2.3.4'' \<mapsto>
        \<lparr>count = 5, firstAttemptAt = 0, lastAttemptAt = 900, blockedUntil = Some 1800900\<rparr>,
      ''10.0.0.7'' \<mapsto>
        \<lparr>count = 2, firstAttemptAt = 100, lastAttemptAt = 200, blockedUntil = None\<rparr>] =
     [''10.0.0.7'' \<mapsto>
        \<lparr>count = 2, firstAttemptAt = 100, lastAttemptAt = 200, blockedUntil = None\<rparr>] \<and>
   clearRateLimit ''1.2.3.4'' Map.empty = Map.empty \<and>
   fst (checkRateLimit 1000 ''1.2.3.4''
     (clearRateLimit ''1.2.3.4''
        [''1.2.3.4'' \<mapsto>
           \<lparr>count = 5, firstAttemptAt = 0, lastAttemptAt = 900,
            blockedUntil = Some 1800900\<rparr>,
         ''10.0.0.7'' \<mapsto>
           \<lparr>count = 2, firstAttemptAt = 100, lastAttemptAt = 200, blockedUntil = None\<rparr>])) =
     fst (checkRateLimit 1000 ''1.2.3.4'' Map.empty) \<and>
   fst (checkRateLimit 1000 ''1.2.3.4'' Map.empty) =
     \<lparr>success = True, remaining = 5, resetIn = 900, blocked = False, message = None\<rparr>"
proof -
  let ?q = "\<lparr>count = 2, firstAttemptAt = 100, lastAttemptAt = 200, blockedUntil = None\<rparr>"
  let ?s = "[''1.2.3.4'' \<mapsto>
      \<lparr>count = 5, firstAttemptAt = 0, lastAttemptAt = 900, blockedUntil = Some 1800900\<rparr>,
    ''10.0.0.7'' \<mapsto> ?q]"
  have absent: "Map.empty ''1.2.3.4'' = (None :: attempt_record option)"
    by simp
  note full = clear_deletes [of "''1.2.3.4''" ?s Map.empty 1000]
  note empty = clear_deletes [of "''1.2.3.4''" Map.empty Map.empty 1000]
  have gone: "clearRateLimit ''1.2.3.4'' ?s ''1.2.3.4'' = None"
    using full by (elim conjE)
  have others: "\<forall>other. other \<noteq> ''1.2.3.4'' \<longrightarrow> clearRateLimit ''1.2.3.4'' ?s other = ?s other"
    using full by (elim conjE)
  have "clearRateLimit ''1.2.3.4'' ?s other = [''10.0.0.7'' \<mapsto> ?q] other" for other
  proof (cases "other = ''1.2.3.4''")
    case True
    then show ?thesis
      using gone by simp
  next
    case False
    then have "clearRateLimit ''1.2.3.4'' ?s other = ?s other"
      using others by simp
    then show ?thesis
      using False by simp
  qed
  then have cleared: "clearRateLimit ''1.2.3.4'' ?s = [''10.0.0.7'' \<mapsto> ?q]"
    by (rule ext)
  have noop: "clearRateLimit ''1.2.3.4'' Map.empty = (Map.empty :: store)"
    using empty absent by (elim conjE) simp
  have same: "fst (checkRateLimit 1000 ''1.2.3.4'' (clearRateLimit ''1.2.3.4'' ?s)) =
      fst (checkRateLimit 1000 ''1.2.3.4'' Map.empty)"
    using full absent by (elim conjE) simp
  have answer: "fst (checkRateLimit 1000 ''1.2.3.4'' Map.empty) =
      \<lparr>success = True, remaining = 5, resetIn = 900, blocked = False, message = None\<rparr>"
    using empty noop by (elim conjE) (simp add: MAX_ATTEMPTS_def)
  from cleared noop same answer show ?thesis
    by (simp only:) 
qed

subsection \<open>C9: the order of the headers\<close>

text \<open>
  Claim C9. For every header map \<^verbatim>\<open>getClientIP\<close> returns \<^verbatim>\<open>cf-connecting-ip\<close>, as it is, when
  it is populated (present and not empty); otherwise, when \<^verbatim>\<open>x-forwarded-for\<close> is populated,
  what stands to the left of its first comma, trimmed: that entry is the result between
  two runs of white space (tab, line feed, vertical tab, form feed, carriage return, space,
  no-break space), and the result neither starts nor ends with white space; otherwise
  \<^verbatim>\<open>x-real-ip\<close>, as it is, when it is populated; otherwise the string \<^verbatim>\<open>unknown\<close>. Each case
  holds whatever the later headers are.
\<close>

theorem getClientIP_precedence:
  "(hs ''cf-connecting-ip'' = Some cf \<and> cf \<noteq> [] \<longrightarrow> getClientIP hs = cf) \<and>
   ((hs ''cf-connecting-ip'' = None \<or> hs ''cf-connecting-ip'' = Some []) \<and>
    hs ''x-forwarded-for'' = Some xff \<and> xff \<noteq> [] \<longrightarrow>
      getClientIP hs = js_trim (takeWhile (\<lambda>c. c \<noteq> CHR '','') xff) \<and>
      (\<exists>before after.
         takeWhile (\<lambda>c. c \<noteq> CHR '','') xff = before @ getClientIP hs @ after \<and>
         set before \<subseteq> {CHR 0x09, CHR 0x0A, CHR 0x0B, CHR 0x0C, CHR 0x0D, CHR 0x20, CHR 0xA0} \<and>
         set after \<subseteq> {CHR 0x09, CHR 0x0A, CHR 0x0B, CHR 0x0C, CHR 0x0D, CHR 0x20, CHR 0xA0}) \<and>
      (getClientIP hs = [] \<or>
       hd (getClientIP hs)
         \<notin> {CHR 0x09, CHR 0x0A, CHR 0x0B, CHR 0x0C, CHR 0x0D, CHR 0x20, CHR 0xA0} \<and>
       last (getClientIP hs)
         \<notin> {CHR 0x09, CHR 0x0A, CHR 0x0B, CHR 0x0C, CHR 0x0D, CHR 0x20, CHR 0xA0})) \<and>
   ((hs ''cf-connecting-ip'' = None \<or> hs ''cf-connecting-ip'' = Some []) \<and>
    (hs ''x-forwarded-for'' = None \<or> hs ''x-forwarded-for'' = Some []) \<and>
    hs ''x-real-ip'' = Some rip \<and> rip \<noteq> [] \<longrightarrow> getClientIP hs = rip) \<and>
   ((hs ''cf-connecting-ip'' = None \<or> hs ''cf-connecting-ip'' = Some []) \<and>
    (hs ''x-forwarded-for'' = None \<or> hs ''x-forwarded-for'' = Some []) \<and>
    (hs ''x-real-ip'' = None \<or> hs ''x-real-ip'' = Some []) \<longrightarrow>
      getClientIP hs = ''unknown'')"
proof (intro conjI impI)
  assume "hs ''cf-connecting-ip'' = Some cf \<and> cf \<noteq> []"
  then show "getClientIP hs = cf"
    by (simp add: getClientIP_def headers_get_def truthy_def)
next
  let ?entry = "takeWhile (\<lambda>c. c \<noteq> CHR '','') xff"
  let ?ws = "{CHR 0x09, CHR 0x0A, CHR 0x0B, CHR 0x0C, CHR 0x0D, CHR 0x20, CHR 0xA0}"
  assume a: "(hs ''cf-connecting-ip'' = None \<or> hs ''cf-connecting-ip'' = Some []) \<and>
    hs ''x-forwarded-for'' = Some xff \<and> xff \<noteq> []"
  then show result: "getClientIP hs = js_trim ?entry"
    by (auto simp: getClientIP_def headers_get_def truthy_def hd_js_split)
  obtain before after where "?entry = before @ js_trim ?entry @ after"
    and "\<forall>c \<in> set before. is_js_whitespace c" and "\<forall>c \<in> set after. is_js_whitespace c"
    using js_trim_decomposes [of ?entry] by blast
  then have "?entry = before @ getClientIP hs @ after \<and> set before \<subseteq> ?ws \<and> set after \<subseteq> ?ws"
    by (auto simp only: result is_js_whitespace_iff)
  then show "\<exists>before after.
      ?entry = before @ getClientIP hs @ after \<and> set before \<subseteq> ?ws \<and> set after \<subseteq> ?ws"
    by blast
  show "getClientIP hs = [] \<or>
      hd (getClientIP hs) \<notin> ?ws \<and> last (getClientIP hs) \<notin> ?ws"
    using js_trim_ends [of ?entry]
    by (simp only: result is_js_whitespace_iff) blast
next
  assume "(hs ''cf-connecting-ip'' = None \<or> hs ''cf-connecting-ip'' = Some []) \<and>
    (hs ''x-forwarded-for'' = None \<or> hs ''x-forwarded-for'' = Some []) \<and>
    hs ''x-real-ip'' = Some rip \<and> rip \<noteq> []"
  then show "getClientIP hs = rip"
    by (auto simp: getClientIP_def headers_get_def truthy_def)
next
  assume "(hs ''cf-connecting-ip'' = None \<or> hs ''cf-connecting-ip'' = Some []) \<and>
    (hs ''x-forwarded-for'' = None \<or> hs ''x-forwarded-for'' = Some []) \<and>
    (hs ''x-real-ip'' = None \<or> hs ''x-real-ip'' = Some [])"
  then show "getClientIP hs = ''unknown''"
    by (auto simp: getClientIP_def headers_get_def truthy_def)
qed

text \<open>
  An instance of each case. In the second the first entry carries a blank and a tab before
  the comma, which the result has lost; in the last but one, the two addresses of the
  specification's example.
\<close>

theorem getClientIP_precedence_witness:
  "getClientIP [''cf-connecting-ip'' \<mapsto> ''9.9.9.9'', ''x-forwarded-for'' \<mapsto> ''1.2.3.4, 5.6.6.7'',
     ''x-real-ip'' \<mapsto> ''8.8.8.8''] = ''9.9.9.9'' \<and>
   getClientIP [''x-forwarded-for'' \<mapsto> [CHR ''1'', CHR ''.'', CHR ''2'', CHR ''.'', CHR ''3'',
       CHR ''.'', CHR ''4'', CHR 0x20, CHR 0x09, CHR '','', CHR 0x20, CHR ''5''],
     ''x-real-ip'' \<mapsto> ''8.8.8.8''] = ''1.2.3.4'' \<and>
   getClientIP [''cf-connecting-ip'' \<mapsto> [], ''x-real-ip'' \<mapsto> ''8.8.8.8''] = ''8.8.8.8'' \<and>
   getClientIP [''x-forwarded-for'' \<mapsto> ''1.2.3.4, 5.6.6.7''] = ''1.2.3.4'' \<and>
   getClientIP Map.empty = ''unknown''"
proof -
  let ?v = "[CHR ''1'', CHR ''.'', CHR ''2'', CHR ''.'', CHR ''3'',
       CHR ''.'', CHR ''4'', CHR 0x20, CHR 0x09, CHR '','', CHR 0x20, CHR ''5'']"
  let ?h1 = "[''cf-connecting-ip'' \<mapsto> ''9.9.9.9'', ''x-forwarded-for'' \<mapsto> ''1.2.3.4, 5.6.6.7'',
     ''x-real-ip'' \<mapsto> ''8.8.8.8'']"
  let ?h2 = "[''x-forwarded-for'' \<mapsto> ?v, ''x-real-ip'' \<mapsto> ''8.8.8.8'']"
  let ?h3 = "[''cf-connecting-ip'' \<mapsto> [], ''x-real-ip'' \<mapsto> ''8.8.8.8'']"
  let ?h4 = "Map.empty :: headers"
  let ?h5 = "[''x-forwarded-for'' \<mapsto> ''1.2.3.4, 5.6.6.7'']"
  have a1: "?h1 ''cf-connecting-ip'' = Some ''9.9.9.9'' \<and> ''9.9.9.9'' \<noteq> []"
    by simp
  have a2: "(?h2 ''cf-connecting-ip'' = None \<or> ?h2 ''cf-connecting-ip'' = Some []) \<and>
      ?h2 ''x-forwarded-for'' = Some ?v \<and> ?v \<noteq> []"
    by simp
  have a3: "(?h3 ''cf-connecting-ip'' = None \<or> ?h3 ''cf-connecting-ip'' = Some []) \<and>
      (?h3 ''x-forwarded-for'' = None \<or> ?h3 ''x-forwarded-for'' = Some []) \<and>
      ?h3 ''x-real-ip'' = Some ''8.8.8.8'' \<and> ''8.8.8.8'' \<noteq> []"
    by simp
  have a4: "(?h4 ''cf-connecting-ip'' = None \<or> ?h4 ''cf-connecting-ip'' = Some []) \<and>
      (?h4 ''x-forwarded-for'' = None \<or> ?h4 ''x-forwarded-for'' = Some []) \<and>
      (?h4 ''x-real-ip'' = None \<or> ?h4 ''x-real-ip'' = Some [])"
    by simp
  have a5: "(?h5 ''cf-connecting-ip'' = None \<or> ?h5 ''cf-connecting-ip'' = Some []) \<and>
      ?h5 ''x-forwarded-for'' = Some ''1.2.3.4, 5.6.6.7'' \<and> ''1.2.3.4, 5.6.6.7'' \<noteq> []"
    by simp
  have trimmed: "js_trim (takeWhile (\<lambda>c. c \<noteq> CHR '','') ?v) = ''1.2.3.4''"
    "js_trim (takeWhile (\<lambda>c. c \<noteq> CHR '','') ''1.2.3.4, 5.6.6.7'') = ''1.2.3.4''"
    by (simp_all add: js_trim_def is_js_whitespace_def)
  note getClientIP_precedence [of ?h1 "''9.9.9.9''", THEN conjunct1, THEN mp, OF a1]
  moreover note getClientIP_precedence [of ?h2 _ ?v,
      THEN conjunct2, THEN conjunct1, THEN mp, OF a2, THEN conjunct1]
  moreover note getClientIP_precedence [of ?h3 _ _ "''8.8.8.8''",
      THEN conjunct2, THEN conjunct2, THEN conjunct1, THEN mp, OF a3]
  moreover note getClientIP_precedence [of ?h5 _ "''1.2.3.4, 5.6.6.7''",
      THEN conjunct2, THEN conjunct1, THEN mp, OF a5, THEN conjunct1]
  moreover note getClientIP_precedence [of ?h4,
      THEN conjunct2, THEN conjunct2, THEN conjunct2, THEN mp, OF a4]
  ultimately show ?thesis
    by (simp only: trimmed)
qed

subsection \<open>C10: an empty first entry gives the empty string\<close>

text \<open>
  Claim C10. When \<^verbatim>\<open>cf-connecting-ip\<close> is not populated and \<^verbatim>\<open>x-forwarded-for\<close> is not
  empty but its first entry trims to nothing, \<^verbatim>\<open>getClientIP\<close> returns the empty string, not
  \<^verbatim>\<open>unknown\<close>, and whatever \<^verbatim>\<open>x-real-ip\<close> is.
\<close>

theorem getClientIP_empty_entry:
  assumes "hs ''cf-connecting-ip'' = None \<or> hs ''cf-connecting-ip'' = Some []"
    and "hs ''x-forwarded-for'' = Some xff" and "xff \<noteq> []"
    and "js_trim (takeWhile (\<lambda>c. c \<noteq> CHR '','') xff) = []"
  shows "getClientIP hs = [] \<and> getClientIP hs \<noteq> ''unknown'' \<and>
    getClientIP (hs(''x-real-ip'' := v)) = []"
  using assms by (auto simp: getClientIP_def headers_get_def truthy_def hd_js_split)

text \<open>
  An instance: the value \<^verbatim>\<open>, 5.6.7.8\<close>, and a value that starts with blanks and a comma.
\<close>

theorem getClientIP_empty_entry_witness:
  "getClientIP [''x-forwarded-for'' \<mapsto> '', 5.6.7.8'', ''x-real-ip'' \<mapsto> ''8.8.8.8''] = [] \<and>
   getClientIP [''x-forwarded-for'' \<mapsto> ''  ,5.6.7.8'', ''x-real-ip'' \<mapsto> ''8.8.8.8''] = []"
proof -
  let ?hs = "[''x-forwarded-for'' \<mapsto> '', 5.6.7.8'', ''x-real-ip'' \<mapsto> ''8.8.8.8'']"
  let ?hs' = "[''x-forwarded-for'' \<mapsto> ''  ,5.6.7.8'']"
  have "?hs ''cf-connecting-ip'' = None \<or> ?hs ''cf-connecting-ip'' = Some []"
    and "?hs ''x-forwarded-for'' = Some '', 5.6.7.8''" and "'', 5.6.7.8'' \<noteq> []"
    and "js_trim (takeWhile (\<lambda>c. c \<noteq> CHR '','') '', 5.6.7.8'') = []"
    by (simp_all add: js_trim_def)
  from getClientIP_empty_entry [of ?hs "'', 5.6.7.8''" None, OF this]
  have first: "getClientIP ?hs = []"
    by simp
  have "?hs' ''cf-connecting-ip'' = None \<or> ?hs' ''cf-connecting-ip'' = Some []"
    and "?hs' ''x-forwarded-for'' = Some ''  ,5.6.7.8''" and "''  ,5.6.7.8'' \<noteq> []"
    and "js_trim (takeWhile (\<lambda>c. c \<noteq> CHR '','') ''  ,5.6.7.8'') = []"
    by (simp_all add: js_trim_def is_js_whitespace_def)
  from getClientIP_empty_entry [of ?hs' "''  ,5.6.7.8''" "Some ''8.8.8.8''", OF this]
  have second: "getClientIP (?hs'(''x-real-ip'' \<mapsto> ''8.8.8.8'')) = []"
    by simp
  from first second show ?thesis
    by simp
qed

end
